theory Spec2Isabelle
  imports Complex_Main
begin

section \<open>JavaScript values at the boundary of the controller\<close>

text \<open>
  The controller \<^verbatim>\<open>LivroController\<close> handles values that TypeScript types only at
  compile time: the request body, the values the model class \<^verbatim>\<open>Livro\<close> resolves
  to, the bodies handed to \<^verbatim>\<open>res.json\<close>. They are modelled as the JSON-representable
  JavaScript values plus \<^verbatim>\<open>undefined\<close>. A number is an IEEE double: \<^verbatim>\<open>NaN\<close>, an
  infinity, the negative zero, or any other finite double, given by its value (\<open>Fin 0\<close>
  is the positive zero). A string is the list of its UTF-8 bytes, as the source file and
  the HTTP body hold it. An object is the list of its properties, each key once.
\<close>

datatype jsnum = NaN | PosInfinity | NegInfinity | NegZero | Fin rat

datatype jsval =
    JUndefined
  | JNull
  | JBool bool
  | JNum jsnum
  | JStr string
  | JArr "jsval list"
  | JObj "(string \<times> jsval) list"

text \<open>
  JavaScript throws any value, and a promise rejects with any value. The handlers use a
  caught value in one way only, the conversion to a string of the template literal
  \<^verbatim>\<open>${error}\<close>, so a thrown value is given by what that conversion does:
  \<^item> \<open>JsError name message\<close>, an \<^verbatim>\<open>Error\<close> object with these two properties;
  \<^item> \<open>JsOther s\<close>, any other value that converts to the string \<open>s\<close> (a thrown string
    or number, a plain object);
  \<^item> \<open>JsSymbol description\<close>, a \<^verbatim>\<open>Symbol\<close>, whose conversion throws a \<^verbatim>\<open>TypeError\<close>;
  \<^item> \<open>JsThrowing e\<close>, an object whose conversion throws \<open>e\<close>: one whose
    \<^verbatim>\<open>toString\<close> throws, or one with no \<^verbatim>\<open>toString\<close> at all such as
    \<^verbatim>\<open>Object.create(null)\<close>, where \<open>e\<close> is a \<^verbatim>\<open>TypeError\<close>.
\<close>

datatype exn =
    JsError string string
  | JsOther string
  | JsSymbol string
  | JsThrowing exn

text \<open>
  \<^verbatim>\<open>ToString\<close> of a caught value: \<^verbatim>\<open>Error.prototype.toString\<close> on an \<^verbatim>\<open>Error\<close>
  object; the conversion throws (\<open>Inl\<close>) on the last two kinds of value.
\<close>

fun exn_toString :: "exn \<Rightarrow> exn + string" where
  "exn_toString (JsError name msg) =
     Inr (if name = [] then msg else if msg = [] then name else name @ '': '' @ msg)"
| "exn_toString (JsOther s) = Inr s"
| "exn_toString (JsSymbol d) =
     Inl (JsError ''TypeError'' ''Cannot convert a Symbol value to a string'')"
| "exn_toString (JsThrowing e) = Inl e"

text \<open>\<^verbatim>\<open>ToBoolean\<close>: the test of \<^verbatim>\<open>if (respostaModelo)\<close>.\<close>

fun ToBoolean :: "jsval \<Rightarrow> bool" where
  "ToBoolean JUndefined = False"
| "ToBoolean JNull = False"
| "ToBoolean (JBool b) = b"
| "ToBoolean (JNum NaN) = False"
| "ToBoolean (JNum NegZero) = False"
| "ToBoolean (JNum (Fin r)) = (r \<noteq> 0)"
| "ToBoolean (JNum PosInfinity) = True"
| "ToBoolean (JNum NegInfinity) = True"
| "ToBoolean (JStr s) = (s \<noteq> [])"
| "ToBoolean (JArr xs) = True"
| "ToBoolean (JObj kvs) = True"

text \<open>The values on which reading a property throws (\<^verbatim>\<open>v == null\<close>).\<close>

fun nullish :: "jsval \<Rightarrow> bool" where
  "nullish JUndefined = True"
| "nullish JNull = True"
| "nullish v = False"

text \<open>
  Reading a property \<^verbatim>\<open>v.k\<close>: a \<^verbatim>\<open>TypeError\<close> on \<^verbatim>\<open>undefined\<close> and \<^verbatim>\<open>null\<close>,
  the bound value on an object that has the key, \<^verbatim>\<open>undefined\<close> otherwise (none of
  the keys the controller reads is a property of a primitive's or an array's prototype).
\<close>

fun get_prop :: "jsval \<Rightarrow> string \<Rightarrow> exn + jsval" where
  "get_prop JUndefined k =
     Inl (JsError ''TypeError''
       (''Cannot read properties of undefined (reading '' @ [CHR 0x27] @ k @ [CHR 0x27] @ '')''))"
| "get_prop JNull k =
     Inl (JsError ''TypeError''
       (''Cannot read properties of null (reading '' @ [CHR 0x27] @ k @ [CHR 0x27] @ '')''))"
| "get_prop (JObj kvs) k = Inr (case map_of kvs k of None \<Rightarrow> JUndefined | Some v \<Rightarrow> v)"
| "get_prop v k = Inr JUndefined"

section \<open>\<^verbatim>\<open>parseInt\<close> with no radix argument\<close>

text \<open>
  The white space that \<^verbatim>\<open>parseInt\<close> skips (\<^verbatim>\<open>StrWhiteSpaceChar\<close>), by the length of
  its UTF-8 encoding: TAB, LF, VT, FF, CR and SP; U+00A0; U+1680, U+2000 to U+200A,
  U+2028, U+2029, U+202F, U+205F, U+3000 and U+FEFF.
\<close>

definition ws1 :: "char \<Rightarrow> bool" where
  "ws1 a \<longleftrightarrow> a \<in> set [CHR 0x09, CHR 0x0A, CHR 0x0B, CHR 0x0C, CHR 0x0D, CHR 0x20]"

definition ws2 :: "char \<Rightarrow> char \<Rightarrow> bool" where
  "ws2 a b \<longleftrightarrow> a = CHR 0xC2 \<and> b = CHR 0xA0"

definition ws3 :: "char \<Rightarrow> char \<Rightarrow> char \<Rightarrow> bool" where
  "ws3 a b c \<longleftrightarrow>
     (a = CHR 0xE1 \<and> b = CHR 0x9A \<and> c = CHR 0x80) \<or>
     (a = CHR 0xE2 \<and> b = CHR 0x80 \<and>
        (of_char c \<in> set [0x80 ..< 0x8B :: nat] \<or> c \<in> set [CHR 0xA8, CHR 0xA9, CHR 0xAF])) \<or>
     (a = CHR 0xE2 \<and> b = CHR 0x81 \<and> c = CHR 0x9F) \<or>
     (a = CHR 0xE3 \<and> b = CHR 0x80 \<and> c = CHR 0x80) \<or>
     (a = CHR 0xEF \<and> b = CHR 0xBB \<and> c = CHR 0xBF)"

fun trimStart :: "string \<Rightarrow> string" where
  "trimStart (a # b # c # s) =
     (if ws1 a then trimStart (b # c # s)
      else if ws2 a b then trimStart (c # s)
      else if ws3 a b c then trimStart s
      else a # b # c # s)"
| "trimStart [a, b] =
     (if ws1 a then trimStart [b] else if ws2 a b then [] else [a, b])"
| "trimStart [a] = (if ws1 a then [] else [a])"
| "trimStart [] = []"

text \<open>The value of a character as a digit: 0 to 9, then the letters in either case.\<close>

definition digitValue :: "char \<Rightarrow> nat option" where
  "digitValue c =
     (let n = (of_char c :: nat) in
      if 48 \<le> n \<and> n \<le> 57 then Some (n - 48)
      else if 97 \<le> n \<and> n \<le> 122 then Some (n - 87)
      else if 65 \<le> n \<and> n \<le> 90 then Some (n - 55)
      else None)"

definition isRadixDigit :: "nat \<Rightarrow> char \<Rightarrow> bool" where
  "isRadixDigit R c = (case digitValue c of None \<Rightarrow> False | Some d \<Rightarrow> d < R)"

definition mathInt :: "nat \<Rightarrow> string \<Rightarrow> nat" where
  "mathInt R Z =
     foldl (\<lambda>n c. n * R + (case digitValue c of None \<Rightarrow> 0 | Some d \<Rightarrow> d)) 0 Z"

text \<open>
  The result of \<^verbatim>\<open>parseInt\<close> is a double. \<open>toDouble n\<close> is the double nearest to
  the natural number \<open>n\<close>, ties to the even significand of 53 bits, and \<open>None\<close> when
  that rounding passes the largest double (the result is then an infinity).
\<close>

fun bitlen :: "nat \<Rightarrow> nat" where
  "bitlen n = (if n = 0 then 0 else Suc (bitlen (n div 2)))"

declare bitlen.simps [simp del]

definition toDouble :: "nat \<Rightarrow> nat option" where
  "toDouble n =
     (if bitlen n \<le> 53 then Some n
      else
        let e = bitlen n - 53;
            q = n div 2 ^ e;
            r = n mod 2 ^ e;
            h = 2 ^ (e - 1);
            q' = (if h < r \<or> (r = h \<and> odd q) then q + 1 else q)
        in if 2 ^ 1024 \<le> q' * 2 ^ e then None else Some (q' * 2 ^ e))"

text \<open>
  \<^verbatim>\<open>parseInt(inputString)\<close>: skip the leading white space, read a sign, take the
  radix 16 after a prefix \<^verbatim>\<open>0x\<close> or \<^verbatim>\<open>0X\<close> and 10 otherwise, read the longest run of
  digits of that radix, and answer \<^verbatim>\<open>NaN\<close> when the run is empty; otherwise the
  double nearest to the integer read (as Node does), with the sign: a zero of that sign,
  or an infinity of that sign when the integer is beyond the doubles.
\<close>

definition parseInt :: "string \<Rightarrow> jsnum" where
  "parseInt inputString =
     (let S = trimStart inputString;
          sign = (if S \<noteq> [] \<and> hd S = CHR ''-'' then - 1 else 1 :: int);
          S1 = (if S \<noteq> [] \<and> (hd S = CHR ''+'' \<or> hd S = CHR ''-'') then tl S else S);
          hex = (take 2 S1 = ''0x'' \<or> take 2 S1 = ''0X'');
          R = (if hex then 16 else 10 :: nat);
          S2 = (if hex then drop 2 S1 else S1);
          Z = takeWhile (isRadixDigit R) S2
      in if Z = [] then NaN
         else if mathInt R Z = 0 then (if sign = - 1 then NegZero else Fin 0)
         else
           (case toDouble (mathInt R Z) of
              None \<Rightarrow> (if sign = - 1 then NegInfinity else PosInfinity)
            | Some m \<Rightarrow> Fin (of_int (sign * int m))))"

text \<open>
  \<^verbatim>\<open>req.params.k as string\<close> is a string when the route binds \<^verbatim>\<open>k\<close> and
  \<^verbatim>\<open>undefined\<close> otherwise; \<^verbatim>\<open>parseInt\<close> first converts its argument to a string.
\<close>

fun ToString_param :: "string option \<Rightarrow> string" where
  "ToString_param None = ''undefined''"
| "ToString_param (Some s) = s"

section \<open>The entity, the model class and the request\<close>

text \<open>
  Modelled from the spec: the class \<^verbatim>\<open>Livro\<close> (\<^verbatim>\<open>src/model/Livro\<close>) is imported by the
  controller and is not among the sources. The spec's BookEntity has the nine fields of
  the DTO and an optional identifier; \<^verbatim>\<open>new Livro(...)\<close> stores its nine arguments and
  sets no identifier, \<^verbatim>\<open>setIdLivro\<close> stores the identifier. The fields hold whatever
  the body holds: the controller validates none of them.
\<close>

record Livro =
  titulo :: jsval
  autor :: jsval
  anoPublicacao :: jsval
  editora :: jsval
  isbn :: jsval
  quantTotal :: jsval
  quantDisponivel :: jsval
  valorAquisicao :: jsval
  statusLivroEmprestado :: jsval
  idLivro :: "jsnum option"

definition new_Livro ::
  "jsval \<Rightarrow> jsval \<Rightarrow> jsval \<Rightarrow> jsval \<Rightarrow> jsval \<Rightarrow> jsval \<Rightarrow> jsval \<Rightarrow> jsval \<Rightarrow> jsval \<Rightarrow> Livro" where
  "new_Livro t a ap e i qt qd va st =
     \<lparr>titulo = t, autor = a, anoPublicacao = ap, editora = e, isbn = i, quantTotal = qt,
      quantDisponivel = qd, valorAquisicao = va, statusLivroEmprestado = st, idLivro = None\<rparr>"

definition setIdLivro :: "jsnum \<Rightarrow> Livro \<Rightarrow> Livro" where
  "setIdLivro n l = l\<lparr>idLivro := Some n\<rparr>"

text \<open>
  The static methods of \<^verbatim>\<open>Livro\<close> that the controller awaits are parameters of the
  model: each gives, for its argument, how the promise settles, rejected with a thrown
  value (\<open>Inl\<close>) or resolved with a value (\<open>Inr\<close>). A promise that never settles is
  outside the model.
\<close>

record repository =
  listagemLivros :: "exn + jsval"
  cadastroLivro :: "Livro \<Rightarrow> exn + jsval"
  removerLivro :: "jsnum \<Rightarrow> exn + jsval"
  atualizarLivro :: "Livro \<Rightarrow> exn + jsval"

datatype call =
    ListagemLivros
  | CadastroLivro Livro
  | RemoverLivro jsnum
  | AtualizarLivro Livro

record request =
  body :: jsval
  params :: "string \<rightharpoonup> string"

section \<open>Effects: the response object, the console, the calls of the model\<close>

text \<open>
  \<open>statusCode\<close> and \<open>sent\<close> are the state of the Express response \<^verbatim>\<open>res\<close>:
  \<^verbatim>\<open>res.status(c)\<close> stores the code, \<^verbatim>\<open>res.json(v)\<close> sends one response with the
  stored code and the body \<^verbatim>\<open>v\<close>. \<open>console\<close> holds the lines logged and \<open>calls\<close>
  the calls made to the model class, both in order.
\<close>

record world =
  statusCode :: nat
  sent :: "(nat \<times> jsval) list"
  console :: "string list"
  calls :: "call list"

type_synonym 'a js = "world \<Rightarrow> (exn + 'a) \<times> world"

definition unit_js :: "'a \<Rightarrow> 'a js" where
  "unit_js x w = (Inr x, w)"

definition bind_js :: "'a js \<Rightarrow> ('a \<Rightarrow> 'b js) \<Rightarrow> 'b js" where
  "bind_js m f w = (case m w of (Inl e, w') \<Rightarrow> (Inl e, w') | (Inr x, w') \<Rightarrow> f x w')"

definition try_catch :: "'a js \<Rightarrow> (exn \<Rightarrow> 'a js) \<Rightarrow> 'a js" where
  "try_catch m h w = (case m w of (Inl e, w') \<Rightarrow> h e w' | (Inr x, w') \<Rightarrow> (Inr x, w'))"

definition lift_js :: "exn + 'a \<Rightarrow> 'a js" where
  "lift_js r w = (r, w)"

definition await :: "call \<Rightarrow> exn + jsval \<Rightarrow> jsval js" where
  "await c outcome w = (outcome, w\<lparr>calls := calls w @ [c]\<rparr>)"

definition res_status :: "nat \<Rightarrow> unit js" where
  "res_status code w = (Inr (), w\<lparr>statusCode := code\<rparr>)"

definition res_json :: "jsval \<Rightarrow> unit js" where
  "res_json v w = (Inr (), w\<lparr>sent := sent w @ [(statusCode w, v)]\<rparr>)"

definition console_log :: "string \<Rightarrow> unit js" where
  "console_log s w = (Inr (), w\<lparr>console := console w @ [s]\<rparr>)"

section \<open>The controller\<close>

text \<open>The two letters of the messages outside ASCII, in UTF-8.\<close>

definition a_tilde :: string where
  "a_tilde = [CHR 0xC3, CHR 0xA3]"

definition i_acute :: string where
  "i_acute = [CHR 0xC3, CHR 0xAD]"

definition Nao_foi_possivel :: string where
  "Nao_foi_possivel = ''N'' @ a_tilde @ ''o foi poss'' @ i_acute @ ''vel''"

definition mensagem :: "string \<Rightarrow> jsval" where
  "mensagem s = JObj [(''mensagem'', JStr s)]"

text \<open>\<^verbatim>\<open>todos\<close> (lines 31 to 45).\<close>

definition todos :: "repository \<Rightarrow> request \<Rightarrow> unit js" where
  "todos repo req =
     try_catch
       (bind_js (await ListagemLivros (listagemLivros repo)) (\<lambda>listaDeLivros.
        bind_js (res_status 200) (\<lambda>_.
        res_json listaDeLivros)))
       (\<lambda>error.
        bind_js (console_log ''Erro ao acessar listagem de livros'') (\<lambda>_.
        bind_js (res_status 400) (\<lambda>_.
        res_json (mensagem (Nao_foi_possivel @ '' acessar a listagem de livros'')))))"

text \<open>
  The expression \<^verbatim>\<open>new Livro(livroRecebido.titulo, ..., livroRecebido.statusLivroEmprestado)\<close>
  of \<^verbatim>\<open>novo\<close> and \<^verbatim>\<open>atualizar\<close>: nine property reads, left to right, then the constructor.
\<close>

definition new_Livro_from :: "jsval \<Rightarrow> Livro js" where
  "new_Livro_from livroRecebido =
     bind_js (lift_js (get_prop livroRecebido ''titulo'')) (\<lambda>t.
     bind_js (lift_js (get_prop livroRecebido ''autor'')) (\<lambda>a.
     bind_js (lift_js (get_prop livroRecebido ''anoPublicacao'')) (\<lambda>ap.
     bind_js (lift_js (get_prop livroRecebido ''editora'')) (\<lambda>e.
     bind_js (lift_js (get_prop livroRecebido ''isbn'')) (\<lambda>i.
     bind_js (lift_js (get_prop livroRecebido ''quantTotal'')) (\<lambda>qt.
     bind_js (lift_js (get_prop livroRecebido ''quantDisponivel'')) (\<lambda>qd.
     bind_js (lift_js (get_prop livroRecebido ''valorAquisicao'')) (\<lambda>va.
     bind_js (lift_js (get_prop livroRecebido ''statusLivroEmprestado'')) (\<lambda>st.
     unit_js (new_Livro t a ap e i qt qd va st))))))))))"

text \<open>\<^verbatim>\<open>novo\<close> (lines 62 to 96).\<close>

definition novo :: "repository \<Rightarrow> request \<Rightarrow> unit js" where
  "novo repo req =
     try_catch
       (let livroRecebido = body req in
        bind_js (new_Livro_from livroRecebido) (\<lambda>novoLivro.
        bind_js (await (CadastroLivro novoLivro) (cadastroLivro repo novoLivro)) (\<lambda>repostaClasse.
        if ToBoolean repostaClasse then
          bind_js (res_status 200) (\<lambda>_.
          res_json (mensagem ''Livro cadastrado com sucesso!''))
        else
          bind_js (res_status 400) (\<lambda>_.
          res_json (mensagem
            ''Erro ao cadastrar o livro. Entre em contato com o administrador do sistema.'')))))
       (\<lambda>error.
        bind_js (lift_js (exn_toString error)) (\<lambda>error_string.
        bind_js (console_log (''Erro ao cadastrar um livro. '' @ error_string)) (\<lambda>_.
        bind_js (res_status 400) (\<lambda>_.
        res_json (mensagem (Nao_foi_possivel @
          '' cadastrar o livro. Entre em contato com o administrador do sistema.''))))))"

text \<open>\<^verbatim>\<open>remover\<close> (lines 108 to 133).\<close>

definition remover :: "repository \<Rightarrow> request \<Rightarrow> unit js" where
  "remover repo req =
     try_catch
       (let idlivro = parseInt (ToString_param (params req ''idlivro'')) in
        bind_js (await (RemoverLivro idlivro) (removerLivro repo idlivro)) (\<lambda>respostaModelo.
        if ToBoolean respostaModelo then
          bind_js (res_status 200) (\<lambda>_.
          res_json (mensagem ''O livro foi removido com sucesso!''))
        else
          bind_js (res_status 400) (\<lambda>_.
          res_json (mensagem
            ''Erro ao remover o livro. Entre em contato com o administrador do sistema.''))))
       (\<lambda>error.
        bind_js (lift_js (exn_toString error)) (\<lambda>error_string.
        bind_js (console_log (''Erro ao remover um livro. '' @ error_string)) (\<lambda>_.
        bind_js (res_status 400) (\<lambda>_.
        res_json (mensagem (Nao_foi_possivel @
          '' remover o livro. Entre em contato com o administrador do sistema.''))))))"

text \<open>\<^verbatim>\<open>atualizar\<close> (lines 136 to 171).\<close>

definition atualizar :: "repository \<Rightarrow> request \<Rightarrow> unit js" where
  "atualizar repo req =
     try_catch
       (let livroRecebido = body req;
            idlivroRecebido = parseInt (ToString_param (params req ''idLivro'')) in
        bind_js (new_Livro_from livroRecebido) (\<lambda>LivroAtualizado0.
        let LivroAtualizado = setIdLivro idlivroRecebido LivroAtualizado0 in
        bind_js (await (AtualizarLivro LivroAtualizado) (atualizarLivro repo LivroAtualizado))
          (\<lambda>respostaModelo.
        if ToBoolean respostaModelo then
          bind_js (res_status 200) (\<lambda>_.
          res_json (mensagem ''O Livro foi atualizado com sucesso!''))
        else
          bind_js (res_status 400) (\<lambda>_.
          res_json (mensagem
            ''Erro ao atualizar o Livro. Entre em contato com o administrador do sistema'')))))
       (\<lambda>error.
        bind_js (lift_js (exn_toString error)) (\<lambda>error_string.
        bind_js (console_log (''Erro ao atualizar um livro. '' @ error_string)) (\<lambda>_.
        bind_js (res_status 400) (\<lambda>_.
        res_json (mensagem (''N'' @ a_tilde @
          ''o foi possivel atualizar o livro.Entre em contato com o administrador do sistema''))))))"

text \<open>
  Whether the conversion of a caught value to a string returns, and whether the outcome
  of an awaited call is one after which the \<^verbatim>\<open>catch\<close> block can write its log line:
  a resolved promise, or a rejection whose value converts.
\<close>

definition converts :: "exn \<Rightarrow> bool" where
  "converts e = (case exn_toString e of Inl e' \<Rightarrow> False | Inr s \<Rightarrow> True)"


section \<open>Concrete requests and model classes\<close>

text \<open>
  A response object on which nothing was sent yet, a model class whose four methods all
  settle in the same way, and the request body of the example of a creation request:
  \<^verbatim>\<open>{titulo: "A", autor: "B", anoPublicacao: "2020", editora: "C", isbn: "123",
  quantTotal: 2, quantDisponivel: 2, valorAquisicao: 10.5, statusLivroEmprestado: "none"}\<close>.
\<close>

definition fresh :: world where
  "fresh = \<lparr>statusCode = 200, sent = [], console = [], calls = []\<rparr>"

definition repo_const :: "exn + jsval \<Rightarrow> repository" where
  "repo_const r =
     \<lparr>listagemLivros = r, cadastroLivro = (\<lambda>l. r), removerLivro = (\<lambda>n. r),
      atualizarLivro = (\<lambda>l. r)\<rparr>"

definition request_of :: "jsval \<Rightarrow> (string \<times> string) list \<Rightarrow> request" where
  "request_of b ps = \<lparr>body = b, params = map_of ps\<rparr>"

definition livro_exemplo :: jsval where
  "livro_exemplo =
     JObj [(''titulo'', JStr ''A''), (''autor'', JStr ''B''), (''anoPublicacao'', JStr ''2020''),
           (''editora'', JStr ''C''), (''isbn'', JStr ''123''), (''quantTotal'', JNum (Fin 2)),
           (''quantDisponivel'', JNum (Fin 2)), (''valorAquisicao'', JNum (Fin (21 / 2))),
           (''statusLivroEmprestado'', JStr ''none'')]"

text \<open>
  The key of a response body that is an object with one key: the bodies
  \<^verbatim>\<open>{ mensagem: "..." }\<close> of the handlers are of that shape.
\<close>

fun single_key :: "jsval \<Rightarrow> string option" where
  "single_key (JObj [(k, v)]) = Some k"
| "single_key v = None"

text \<open>The entity that \<^verbatim>\<open>new Livro(...)\<close> builds from the example body.\<close>

definition entidade_exemplo :: Livro where
  "entidade_exemplo =
     new_Livro (JStr ''A'') (JStr ''B'') (JStr ''2020'') (JStr ''C'') (JStr ''123'')
       (JNum (Fin 2)) (JNum (Fin 2)) (JNum (Fin (21 / 2))) (JStr ''none'')"

section \<open>What one invocation of each handler does\<close>

lemmas js_defs = try_catch_def bind_js_def unit_js_def lift_js_def await_def res_status_def
  res_json_def console_log_def mensagem_def

lemma new_Livro_from_nullish:
  "nullish b \<Longrightarrow>
   \<exists>m. new_Livro_from b w = (Inl (JsError ''TypeError'' m), w) \<and>
     get_prop b ''titulo'' = Inl (JsError ''TypeError'' m)"
  by (cases b) (simp_all add: new_Livro_from_def js_defs)

lemma new_Livro_from_object:
  "\<not> nullish b \<Longrightarrow>
   \<exists>l. new_Livro_from b w = (Inr l, w) \<and> idLivro l = None \<and>
     get_prop b ''titulo'' = Inr (titulo l) \<and>
     get_prop b ''autor'' = Inr (autor l) \<and>
     get_prop b ''anoPublicacao'' = Inr (anoPublicacao l) \<and>
     get_prop b ''editora'' = Inr (editora l) \<and>
     get_prop b ''isbn'' = Inr (isbn l) \<and>
     get_prop b ''quantTotal'' = Inr (quantTotal l) \<and>
     get_prop b ''quantDisponivel'' = Inr (quantDisponivel l) \<and>
     get_prop b ''valorAquisicao'' = Inr (valorAquisicao l) \<and>
     get_prop b ''statusLivroEmprestado'' = Inr (statusLivroEmprestado l)"
  by (cases b) (simp_all add: new_Livro_from_def new_Livro_def js_defs)

lemma body_cases:
  "(\<exists>m. nullish (body req) \<and> new_Livro_from (body req) w = (Inl (JsError ''TypeError'' m), w)) \<or>
   (\<exists>l. \<not> nullish (body req) \<and> new_Livro_from (body req) w = (Inr l, w) \<and> idLivro l = None)"
  using new_Livro_from_nullish [of "body req" w] new_Livro_from_object [of "body req" w]
  by (cases "nullish (body req)") blast+

lemma todos_run:
  "todos repo req w =
     (case listagemLivros repo of
        Inr v \<Rightarrow>
          (Inr (), \<lparr>statusCode = 200, sent = sent w @ [(200, v)], console = console w,
             calls = calls w @ [ListagemLivros]\<rparr>)
      | Inl e \<Rightarrow>
          (Inr (), \<lparr>statusCode = 400,
             sent = sent w @ [(400, JObj [(''mensagem'',
               JStr (Nao_foi_possivel @ '' acessar a listagem de livros''))])],
             console = console w @ [''Erro ao acessar listagem de livros''],
             calls = calls w @ [ListagemLivros]\<rparr>))"
  by (simp add: todos_def js_defs split: sum.splits)

lemma novo_parse_throws:
  "new_Livro_from (body req) w = (Inl e, w) \<Longrightarrow> exn_toString e = Inr line \<Longrightarrow>
   novo repo req w =
     (Inr (), \<lparr>statusCode = 400,
        sent = sent w @ [(400, JObj [(''mensagem'', JStr (Nao_foi_possivel @
          '' cadastrar o livro. Entre em contato com o administrador do sistema.''))])],
        console = console w @ [''Erro ao cadastrar um livro. '' @ line],
        calls = calls w\<rparr>)"
  by (simp add: novo_def js_defs)

lemma novo_calls:
  "new_Livro_from (body req) w = (Inr l, w) \<Longrightarrow>
   novo repo req w =
     (case cadastroLivro repo l of
        Inr v \<Rightarrow>
          (Inr (), \<lparr>statusCode = (if ToBoolean v then 200 else 400),
             sent = sent w @
               [if ToBoolean v
                then (200, JObj [(''mensagem'', JStr ''Livro cadastrado com sucesso!'')])
                else (400, JObj [(''mensagem'', JStr
                  ''Erro ao cadastrar o livro. Entre em contato com o administrador do sistema.'')])],
             console = console w, calls = calls w @ [CadastroLivro l]\<rparr>)
      | Inl e \<Rightarrow>
          (case exn_toString e of
             Inr line \<Rightarrow>
               (Inr (), \<lparr>statusCode = 400,
                  sent = sent w @ [(400, JObj [(''mensagem'', JStr (Nao_foi_possivel @
                    '' cadastrar o livro. Entre em contato com o administrador do sistema.''))])],
                  console = console w @ [''Erro ao cadastrar um livro. '' @ line],
                  calls = calls w @ [CadastroLivro l]\<rparr>)
           | Inl e' \<Rightarrow> (Inl e', w\<lparr>calls := calls w @ [CadastroLivro l]\<rparr>)))"
  by (simp add: novo_def js_defs split: sum.splits)

lemma remover_run:
  "remover repo req w =
     (let n = parseInt (ToString_param (params req ''idlivro'')) in
      case removerLivro repo n of
        Inr v \<Rightarrow>
          (Inr (), \<lparr>statusCode = (if ToBoolean v then 200 else 400),
             sent = sent w @
               [if ToBoolean v
                then (200, JObj [(''mensagem'', JStr ''O livro foi removido com sucesso!'')])
                else (400, JObj [(''mensagem'', JStr
                  ''Erro ao remover o livro. Entre em contato com o administrador do sistema.'')])],
             console = console w, calls = calls w @ [RemoverLivro n]\<rparr>)
      | Inl e \<Rightarrow>
          (case exn_toString e of
             Inr line \<Rightarrow>
               (Inr (), \<lparr>statusCode = 400,
                  sent = sent w @ [(400, JObj [(''mensagem'', JStr (Nao_foi_possivel @
                    '' remover o livro. Entre em contato com o administrador do sistema.''))])],
                  console = console w @ [''Erro ao remover um livro. '' @ line],
                  calls = calls w @ [RemoverLivro n]\<rparr>)
           | Inl e' \<Rightarrow> (Inl e', w\<lparr>calls := calls w @ [RemoverLivro n]\<rparr>)))"
  by (simp add: remover_def js_defs Let_def split: sum.splits)

lemma atualizar_parse_throws:
  "new_Livro_from (body req) w = (Inl e, w) \<Longrightarrow> exn_toString e = Inr line \<Longrightarrow>
   atualizar repo req w =
     (Inr (), \<lparr>statusCode = 400,
        sent = sent w @ [(400, JObj [(''mensagem'', JStr (''N'' @ a_tilde @
          ''o foi possivel atualizar o livro.Entre em contato com o administrador do sistema''))])],
        console = console w @ [''Erro ao atualizar um livro. '' @ line],
        calls = calls w\<rparr>)"
  by (simp add: atualizar_def js_defs)

lemma atualizar_calls:
  "new_Livro_from (body req) w = (Inr l0, w) \<Longrightarrow>
   atualizar repo req w =
     (let l = l0\<lparr>idLivro := Some (parseInt (ToString_param (params req ''idLivro'')))\<rparr> in
      case atualizarLivro repo l of
        Inr v \<Rightarrow>
          (Inr (), \<lparr>statusCode = (if ToBoolean v then 200 else 400),
             sent = sent w @
               [if ToBoolean v
                then (200, JObj [(''mensagem'', JStr ''O Livro foi atualizado com sucesso!'')])
                else (400, JObj [(''mensagem'', JStr
                  ''Erro ao atualizar o Livro. Entre em contato com o administrador do sistema'')])],
             console = console w, calls = calls w @ [AtualizarLivro l]\<rparr>)
      | Inl e \<Rightarrow>
          (case exn_toString e of
             Inr line \<Rightarrow>
               (Inr (), \<lparr>statusCode = 400,
                  sent = sent w @ [(400, JObj [(''mensagem'', JStr (''N'' @ a_tilde @
                    ''o foi possivel atualizar o livro.Entre em contato com o administrador do sistema''))])],
                  console = console w @ [''Erro ao atualizar um livro. '' @ line],
                  calls = calls w @ [AtualizarLivro l]\<rparr>)
           | Inl e' \<Rightarrow> (Inl e', w\<lparr>calls := calls w @ [AtualizarLivro l]\<rparr>)))"
  by (simp add: atualizar_def js_defs setIdLivro_def Let_def split: sum.splits)

lemma novo_outcomes:
  "(\<exists>c m. fst (novo repo req w) = Inr () \<and>
      sent (snd (novo repo req w)) = sent w @ [(c, JObj [(''mensagem'', JStr m)])] \<and>
      (c = 200 \<or> c = 400)) \<or>
   (sent (snd (novo repo req w)) = sent w \<and>
    (\<exists>l x. calls (snd (novo repo req w)) = calls w @ [CadastroLivro l] \<and>
       cadastroLivro repo l = Inl x \<and> \<not> converts x))"
proof -
  from body_cases [of req w] consider
    (null) m where "new_Livro_from (body req) w = (Inl (JsError ''TypeError'' m), w)"
    | (obj) l0 where "new_Livro_from (body req) w = (Inr l0, w)"
    by blast
  then show ?thesis
  proof cases
    case null
    then show ?thesis by (simp add: novo_parse_throws)
  next
    case obj
    let ?l = "l0"
    show ?thesis
    proof (cases "cadastroLivro repo ?l")
      case (Inr v)
      with obj show ?thesis by (cases "ToBoolean v") (simp_all add: novo_calls)
    next
      case thrown: (Inl x)
      show ?thesis
      proof (cases "exn_toString x")
        case (Inr line)
        with obj thrown show ?thesis by (simp add: novo_calls)
      next
        case (Inl e')
        with obj thrown show ?thesis by (auto simp add: novo_calls converts_def)
      qed
    qed
  qed
qed

lemma atualizar_outcomes:
  "(\<exists>c m. fst (atualizar repo req w) = Inr () \<and>
      sent (snd (atualizar repo req w)) = sent w @ [(c, JObj [(''mensagem'', JStr m)])] \<and>
      (c = 200 \<or> c = 400)) \<or>
   (sent (snd (atualizar repo req w)) = sent w \<and>
    (\<exists>l x. calls (snd (atualizar repo req w)) = calls w @ [AtualizarLivro l] \<and>
       atualizarLivro repo l = Inl x \<and> \<not> converts x))"
proof -
  from body_cases [of req w] consider
    (null) m where "new_Livro_from (body req) w = (Inl (JsError ''TypeError'' m), w)"
    | (obj) l0 where "new_Livro_from (body req) w = (Inr l0, w)"
    by blast
  then show ?thesis
  proof cases
    case null
    then show ?thesis by (simp add: atualizar_parse_throws)
  next
    case obj
    let ?l = "l0\<lparr>idLivro := Some (parseInt (ToString_param (params req ''idLivro'')))\<rparr>"
    show ?thesis
    proof (cases "atualizarLivro repo ?l")
      case (Inr v)
      with obj show ?thesis by (cases "ToBoolean v") (simp_all add: atualizar_calls Let_def)
    next
      case thrown: (Inl x)
      show ?thesis
      proof (cases "exn_toString x")
        case (Inr line)
        with obj thrown show ?thesis by (simp add: atualizar_calls Let_def)
      next
        case (Inl e')
        with obj thrown show ?thesis by (auto simp add: atualizar_calls converts_def Let_def)
      qed
    qed
  qed
qed

lemma remover_outcomes:
  "(\<exists>c m. fst (remover repo req w) = Inr () \<and>
      sent (snd (remover repo req w)) = sent w @ [(c, JObj [(''mensagem'', JStr m)])] \<and>
      (c = 200 \<or> c = 400)) \<or>
   (sent (snd (remover repo req w)) = sent w \<and>
    (\<exists>n x. calls (snd (remover repo req w)) = calls w @ [RemoverLivro n] \<and>
       removerLivro repo n = Inl x \<and> \<not> converts x))"
proof (cases "removerLivro repo (parseInt (ToString_param (params req ''idlivro'')))")
  case (Inr v)
  then show ?thesis by (cases "ToBoolean v") (simp_all add: remover_run Let_def)
next
  case thrown: (Inl x)
  show ?thesis
  proof (cases "exn_toString x")
    case (Inr line)
    with thrown show ?thesis by (simp add: remover_run Let_def)
  next
    case (Inl e')
    with thrown show ?thesis by (auto simp add: remover_run Let_def converts_def)
  qed
qed

lemma new_Livro_from_exemplo:
  "new_Livro_from (body (request_of livro_exemplo ps)) w = (Inr entidade_exemplo, w)"
  by (simp add: new_Livro_from_def js_defs request_of_def livro_exemplo_def entidade_exemplo_def)

subsection \<open>\<^verbatim>\<open>parseInt\<close> on examples\<close>

lemmas parseInt_defs = parseInt_def Let_def isRadixDigit_def digitValue_def mathInt_def
  toDouble_def bitlen.simps ws1_def ws2_def ws3_def


lemma parseInt_undefined: "parseInt ''undefined'' = NaN"
  by (simp add: parseInt_defs)

lemma parseInt_3: "parseInt ''3'' = Fin 3"
  by (simp add: parseInt_defs)

lemma parseInt_7: "parseInt ''7'' = Fin 7"
  by (simp add: parseInt_defs)

text \<open>
  The result is a double: beyond \<open>2 ^ 53\<close> the integer read is rounded, the sign of a
  zero is kept, and an integer beyond the largest double gives an infinity.
\<close>

lemma parseInt_rounds: "parseInt ''9007199254740993'' = Fin 9007199254740992"
  by (simp add: parseInt_defs)

lemma parseInt_negative_zero: "parseInt ''-0'' = NegZero"
  by (simp add: parseInt_defs)

lemma toDouble_overflow: "toDouble (2 ^ 1024 - 2 ^ 970) = None"
  by (simp add: toDouble_def bitlen.simps Let_def)

section \<open>The claims\<close>




text \<open>
  C2, as stated, fails: a successful creation answers with the body
  \<^verbatim>\<open>{ mensagem: "Livro cadastrado com sucesso!" }\<close>, whose single key is
  \<^verbatim>\<open>mensagem\<close> and not \<^verbatim>\<open>message\<close>.
\<close>

theorem key_message_counterexample:
  "map (single_key \<circ> snd)
     (sent (snd (novo (repo_const (Inr (JBool True))) (request_of livro_exemplo []) fresh)))
   = [Some ''mensagem''] \<and>
   map (single_key \<circ> snd)
     (sent (snd (novo (repo_const (Inr (JBool True))) (request_of livro_exemplo []) fresh)))
   \<noteq> [Some ''message'']"
  by (simp add: novo_calls [OF new_Livro_from_exemplo] repo_const_def fresh_def)

text \<open>
  C2, amended. The body of every response of \<^verbatim>\<open>novo\<close>, \<^verbatim>\<open>remover\<close> and
  \<^verbatim>\<open>atualizar\<close>, and of \<^verbatim>\<open>todos\<close> when the listing throws, is an object whose single
  key is \<^verbatim>\<open>mensagem\<close> and whose value is a string; when the listing resolves, the body
  of \<^verbatim>\<open>todos\<close> is the resolved value itself, not wrapped in an object. The three
  handlers send such a response on every invocation but one kind: the call they make
  throws a value that does not convert to a string, and then they send nothing.
\<close>

theorem bodies_use_key_mensagem:
  "(listagemLivros repo = Inr v \<longrightarrow> sent (snd (todos repo req w)) = sent w @ [(200, v)]) \<and>
   (listagemLivros repo = Inl e \<longrightarrow>
      (\<exists>c m. sent (snd (todos repo req w)) = sent w @ [(c, JObj [(''mensagem'', JStr m)])])) \<and>
   ((\<exists>c m. sent (snd (novo repo req w)) = sent w @ [(c, JObj [(''mensagem'', JStr m)])]) \<or>
    (sent (snd (novo repo req w)) = sent w \<and>
     (\<exists>l x. calls (snd (novo repo req w)) = calls w @ [CadastroLivro l] \<and>
        cadastroLivro repo l = Inl x \<and> \<not> converts x))) \<and>
   ((\<exists>c m. sent (snd (remover repo req w)) = sent w @ [(c, JObj [(''mensagem'', JStr m)])]) \<or>
    (sent (snd (remover repo req w)) = sent w \<and>
     (\<exists>n x. calls (snd (remover repo req w)) = calls w @ [RemoverLivro n] \<and>
        removerLivro repo n = Inl x \<and> \<not> converts x))) \<and>
   ((\<exists>c m. sent (snd (atualizar repo req w)) = sent w @ [(c, JObj [(''mensagem'', JStr m)])]) \<or>
    (sent (snd (atualizar repo req w)) = sent w \<and>
     (\<exists>l x. calls (snd (atualizar repo req w)) = calls w @ [AtualizarLivro l] \<and>
        atualizarLivro repo l = Inl x \<and> \<not> converts x)))"
proof -
  have t: "(listagemLivros repo = Inr v \<longrightarrow> sent (snd (todos repo req w)) = sent w @ [(200, v)]) \<and>
   (listagemLivros repo = Inl e \<longrightarrow>
      (\<exists>c m. sent (snd (todos repo req w)) = sent w @ [(c, JObj [(''mensagem'', JStr m)])]))"
    by (simp add: todos_run)
  from t novo_outcomes [of repo req w] remover_outcomes [of repo req w]
    atualizar_outcomes [of repo req w]
  show ?thesis by blast
qed

text \<open>
  C2, amended, at a listing that resolves with an array and at one that throws, and at a
  creation, a removal and an update that resolve \<^verbatim>\<open>true\<close>.
\<close>

theorem bodies_use_key_mensagem_witness:
  "listagemLivros (repo_const (Inr (JArr [JNull]))) = Inr (JArr [JNull]) \<and>
   sent (snd (todos (repo_const (Inr (JArr [JNull]))) (request_of JUndefined []) fresh))
     = [(200, JArr [JNull])] \<and>
   listagemLivros (repo_const (Inl (JsError ''Error'' ''down''))) = Inl (JsError ''Error'' ''down'') \<and>
   (\<exists>c m. sent (snd (todos (repo_const (Inl (JsError ''Error'' ''down''))) (request_of JUndefined [])
      fresh)) = [(c, JObj [(''mensagem'', JStr m)])]) \<and>
   sent (snd (novo (repo_const (Inr (JBool True))) (request_of livro_exemplo []) fresh)) \<noteq>
     sent fresh \<and>
   (\<exists>c m. sent (snd (novo (repo_const (Inr (JBool True))) (request_of livro_exemplo []) fresh)) =
      [(c, JObj [(''mensagem'', JStr m)])]) \<and>
   sent (snd (remover (repo_const (Inr (JBool True))) (request_of livro_exemplo []) fresh)) \<noteq>
     sent fresh \<and>
   (\<exists>c m. sent (snd (remover (repo_const (Inr (JBool True))) (request_of livro_exemplo []) fresh)) =
      [(c, JObj [(''mensagem'', JStr m)])]) \<and>
   sent (snd (atualizar (repo_const (Inr (JBool True))) (request_of livro_exemplo []) fresh)) \<noteq>
     sent fresh \<and>
   (\<exists>c m. sent (snd (atualizar (repo_const (Inr (JBool True))) (request_of livro_exemplo []) fresh)) =
      [(c, JObj [(''mensagem'', JStr m)])])"
proof -
  let ?req = "request_of livro_exemplo []"
  let ?T = "repo_const (Inr (JBool True))"
  have n: "sent (snd (novo ?T ?req fresh)) \<noteq> sent fresh"
    by (simp add: novo_calls [OF new_Livro_from_exemplo] repo_const_def)
  have r: "sent (snd (remover ?T ?req fresh)) \<noteq> sent fresh"
    by (simp add: remover_run Let_def repo_const_def)
  have a: "sent (snd (atualizar ?T ?req fresh)) \<noteq> sent fresh"
    by (simp add: atualizar_calls [OF new_Livro_from_exemplo] Let_def repo_const_def)
  from bodies_use_key_mensagem [of "repo_const (Inr (JArr [JNull]))" "JArr [JNull]"
      "request_of JUndefined []" fresh "JsError ''Error'' ''down''"]
    bodies_use_key_mensagem [of "repo_const (Inl (JsError ''Error'' ''down''))" "JNull"
      "request_of JUndefined []" fresh "JsError ''Error'' ''down''"]
    bodies_use_key_mensagem [of ?T "JBool True" ?req fresh "JsError ''Error'' ''down''"]
  show ?thesis using n r a by (simp add: repo_const_def fresh_def)
qed




text \<open>
  C4. When the body of an update request is an object (reading it does not throw),
  \<^verbatim>\<open>atualizar\<close> makes one call of \<^verbatim>\<open>Livro.atualizarLivro\<close>, and the entity it passes
  has as identifier \<^verbatim>\<open>parseInt\<close> of the path parameter \<^verbatim>\<open>idLivro\<close>, whatever the
  body holds, and as every other field the property of that name of the body.
\<close>

theorem atualizar_entity_id_from_path:
  assumes "\<not> nullish (body req)"
  shows "\<exists>l. calls (snd (atualizar repo req w)) = calls w @ [AtualizarLivro l] \<and>
     idLivro l = Some (parseInt (ToString_param (params req ''idLivro''))) \<and>
     get_prop (body req) ''titulo'' = Inr (titulo l) \<and>
     get_prop (body req) ''autor'' = Inr (autor l) \<and>
     get_prop (body req) ''anoPublicacao'' = Inr (anoPublicacao l) \<and>
     get_prop (body req) ''editora'' = Inr (editora l) \<and>
     get_prop (body req) ''isbn'' = Inr (isbn l) \<and>
     get_prop (body req) ''quantTotal'' = Inr (quantTotal l) \<and>
     get_prop (body req) ''quantDisponivel'' = Inr (quantDisponivel l) \<and>
     get_prop (body req) ''valorAquisicao'' = Inr (valorAquisicao l) \<and>
     get_prop (body req) ''statusLivroEmprestado'' = Inr (statusLivroEmprestado l)"
proof -
  from new_Livro_from_object [OF assms, of w] obtain l0 where
    run: "new_Livro_from (body req) w = (Inr l0, w)" and
    fields: "get_prop (body req) ''titulo'' = Inr (titulo l0)"
      "get_prop (body req) ''autor'' = Inr (autor l0)"
      "get_prop (body req) ''anoPublicacao'' = Inr (anoPublicacao l0)"
      "get_prop (body req) ''editora'' = Inr (editora l0)"
      "get_prop (body req) ''isbn'' = Inr (isbn l0)"
      "get_prop (body req) ''quantTotal'' = Inr (quantTotal l0)"
      "get_prop (body req) ''quantDisponivel'' = Inr (quantDisponivel l0)"
      "get_prop (body req) ''valorAquisicao'' = Inr (valorAquisicao l0)"
      "get_prop (body req) ''statusLivroEmprestado'' = Inr (statusLivroEmprestado l0)"
    by blast
  let ?l = "l0\<lparr>idLivro := Some (parseInt (ToString_param (params req ''idLivro'')))\<rparr>"
  have "calls (snd (atualizar repo req w)) = calls w @ [AtualizarLivro ?l]"
    by (simp add: atualizar_calls [OF run] Let_def split: sum.splits)
  with fields show ?thesis
    by (intro exI [of _ ?l]) simp
qed

text \<open>
  C4 at the path parameter \<^verbatim>\<open>3\<close> and a body that has a key \<^verbatim>\<open>idLivro\<close> bound to 99:
  the identifier of the entity is 3.
\<close>

theorem atualizar_entity_id_from_path_witness:
  "\<not> nullish (body (request_of (JObj [(''idLivro'', JNum (Fin 99)), (''titulo'', JStr ''A'')])
       [(''idLivro'', ''3'')])) \<and>
   (\<exists>l. calls (snd (atualizar (repo_const (Inr (JBool True)))
        (request_of (JObj [(''idLivro'', JNum (Fin 99)), (''titulo'', JStr ''A'')])
          [(''idLivro'', ''3'')]) fresh)) = [AtualizarLivro l] \<and>
      idLivro l = Some (Fin 3) \<and> titulo l = JStr ''A'')"
proof -
  let ?req = "request_of (JObj [(''idLivro'', JNum (Fin 99)), (''titulo'', JStr ''A'')])
       [(''idLivro'', ''3'')]"
  have h: "\<not> nullish (body ?req)" by (simp add: request_of_def)
  have p: "parseInt (ToString_param (params ?req ''idLivro'')) = Fin 3"
    by (simp add: request_of_def parseInt_3)
  from atualizar_entity_id_from_path [OF h, of "repo_const (Inr (JBool True))" fresh]
  show ?thesis using h unfolding p by (auto simp add: fresh_def request_of_def)
qed




text \<open>
  C6, as stated, fails: when the listing throws, the body of the response is not
  \<^verbatim>\<open>{"message":"Could not access the book listing"}\<close>.
\<close>

theorem todos_throw_body_counterexample:
  "sent (snd (todos (repo_const (Inl (JsError ''Error'' ''timeout''))) (request_of JUndefined [])
     fresh)) \<noteq> [(400, JObj [(''message'', JStr ''Could not access the book listing'')])]"
  by (simp add: todos_run repo_const_def fresh_def)

text \<open>
  C6, amended. When \<^verbatim>\<open>Livro.listagemLivros\<close> resolves with the empty array,
  \<^verbatim>\<open>todos\<close> responds 200 with the body \<^verbatim>\<open>[]\<close>; when it throws, whatever the error,
  \<^verbatim>\<open>todos\<close> responds 400 with the body \<^verbatim>\<open>{ mensagem: "..." }\<close> whose text is the
  Portuguese sentence of the source (line 43).
\<close>

theorem todos_empty_and_throw:
  "(listagemLivros repo = Inr (JArr []) \<longrightarrow>
      sent (snd (todos repo req w)) = sent w @ [(200, JArr [])]) \<and>
   (listagemLivros repo = Inl e \<longrightarrow>
      sent (snd (todos repo req w)) =
        sent w @ [(400, JObj [(''mensagem'',
          JStr (Nao_foi_possivel @ '' acessar a listagem de livros''))])])"
  by (simp add: todos_run)

text \<open>
  C6, amended, at a listing that resolves with \<^verbatim>\<open>[]\<close> and at one that throws.
\<close>

theorem todos_empty_and_throw_witness:
  "listagemLivros (repo_const (Inr (JArr []))) = Inr (JArr []) \<and>
   sent (snd (todos (repo_const (Inr (JArr []))) (request_of JUndefined []) fresh)) =
     [(200, JArr [])] \<and>
   listagemLivros (repo_const (Inl (JsError ''Error'' ''timeout''))) =
     Inl (JsError ''Error'' ''timeout'') \<and>
   sent (snd (todos (repo_const (Inl (JsError ''Error'' ''timeout''))) (request_of JUndefined [])
     fresh)) =
     [(400, JObj [(''mensagem'', JStr (Nao_foi_possivel @ '' acessar a listagem de livros''))])]"
  using todos_empty_and_throw [of "repo_const (Inr (JArr []))" "request_of JUndefined []" fresh
      "JsError ''Error'' ''timeout''"]
    todos_empty_and_throw [of "repo_const (Inl (JsError ''Error'' ''timeout''))"
      "request_of JUndefined []" fresh "JsError ''Error'' ''timeout''"]
  by (simp add: repo_const_def fresh_def)

text \<open>
  C7. The status of every response of the four handlers is 200 or 400: \<^verbatim>\<open>todos\<close>
  always sends one response, with one of these two codes; each of \<^verbatim>\<open>novo\<close>,
  \<^verbatim>\<open>remover\<close> and \<^verbatim>\<open>atualizar\<close> sends one response with one of these two codes, or
  sends none, which happens only when the call it makes throws a value that does not
  convert to a string. And when the call that \<^verbatim>\<open>novo\<close>, \<^verbatim>\<open>remover\<close> or
  \<^verbatim>\<open>atualizar\<close> makes resolves with a falsy value (\<^verbatim>\<open>false\<close> for a book that was not
  found), the status is 400.
\<close>

theorem status_200_or_400:
  "(\<exists>c b. sent (snd (todos repo req w)) = sent w @ [(c, b)] \<and> (c = 200 \<or> c = 400)) \<and>
   ((\<exists>c b. sent (snd (novo repo req w)) = sent w @ [(c, b)] \<and> (c = 200 \<or> c = 400)) \<or>
    (sent (snd (novo repo req w)) = sent w \<and>
     (\<exists>l x. calls (snd (novo repo req w)) = calls w @ [CadastroLivro l] \<and>
        cadastroLivro repo l = Inl x \<and> \<not> converts x))) \<and>
   ((\<exists>c b. sent (snd (remover repo req w)) = sent w @ [(c, b)] \<and> (c = 200 \<or> c = 400)) \<or>
    (sent (snd (remover repo req w)) = sent w \<and>
     (\<exists>n x. calls (snd (remover repo req w)) = calls w @ [RemoverLivro n] \<and>
        removerLivro repo n = Inl x \<and> \<not> converts x))) \<and>
   ((\<exists>c b. sent (snd (atualizar repo req w)) = sent w @ [(c, b)] \<and> (c = 200 \<or> c = 400)) \<or>
    (sent (snd (atualizar repo req w)) = sent w \<and>
     (\<exists>l x. calls (snd (atualizar repo req w)) = calls w @ [AtualizarLivro l] \<and>
        atualizarLivro repo l = Inl x \<and> \<not> converts x))) \<and>
   (calls (snd (novo repo req w)) = calls w @ [CadastroLivro l] \<and>
      cadastroLivro repo l = Inr v \<and> \<not> ToBoolean v \<longrightarrow>
      (\<exists>b. sent (snd (novo repo req w)) = sent w @ [(400, b)])) \<and>
   (calls (snd (remover repo req w)) = calls w @ [RemoverLivro n] \<and>
      removerLivro repo n = Inr v \<and> \<not> ToBoolean v \<longrightarrow>
      (\<exists>b. sent (snd (remover repo req w)) = sent w @ [(400, b)])) \<and>
   (calls (snd (atualizar repo req w)) = calls w @ [AtualizarLivro l] \<and>
      atualizarLivro repo l = Inr v \<and> \<not> ToBoolean v \<longrightarrow>
      (\<exists>b. sent (snd (atualizar repo req w)) = sent w @ [(400, b)]))"
proof -
  have t: "\<exists>c b. sent (snd (todos repo req w)) = sent w @ [(c, b)] \<and> (c = 200 \<or> c = 400)"
    by (simp add: todos_run split: sum.splits)
  have rf: "calls (snd (remover repo req w)) = calls w @ [RemoverLivro n] \<and>
      removerLivro repo n = Inr v \<and> \<not> ToBoolean v \<longrightarrow>
      (\<exists>b. sent (snd (remover repo req w)) = sent w @ [(400, b)])"
    by (auto simp add: remover_run Let_def split: sum.splits)
  have nf: "calls (snd (novo repo req w)) = calls w @ [CadastroLivro l] \<and>
      cadastroLivro repo l = Inr v \<and> \<not> ToBoolean v \<longrightarrow>
      (\<exists>b. sent (snd (novo repo req w)) = sent w @ [(400, b)])"
    using body_cases [of req w]
  proof (elim disjE exE conjE)
    fix m
    assume "new_Livro_from (body req) w = (Inl (JsError ''TypeError'' m), w)"
    then show ?thesis by (simp add: novo_parse_throws)
  next
    fix l0
    assume "new_Livro_from (body req) w = (Inr l0, w)"
    then show ?thesis by (auto simp add: novo_calls split: sum.splits)
  qed
  have af: "calls (snd (atualizar repo req w)) = calls w @ [AtualizarLivro l] \<and>
      atualizarLivro repo l = Inr v \<and> \<not> ToBoolean v \<longrightarrow>
      (\<exists>b. sent (snd (atualizar repo req w)) = sent w @ [(400, b)])"
    using body_cases [of req w]
  proof (elim disjE exE conjE)
    fix m
    assume "new_Livro_from (body req) w = (Inl (JsError ''TypeError'' m), w)"
    then show ?thesis by (simp add: atualizar_parse_throws)
  next
    fix l0
    assume "new_Livro_from (body req) w = (Inr l0, w)"
    then show ?thesis by (auto simp add: atualizar_calls Let_def split: sum.splits)
  qed
  have n: "(\<exists>c b. sent (snd (novo repo req w)) = sent w @ [(c, b)] \<and> (c = 200 \<or> c = 400)) \<or>
    (sent (snd (novo repo req w)) = sent w \<and>
     (\<exists>l x. calls (snd (novo repo req w)) = calls w @ [CadastroLivro l] \<and>
        cadastroLivro repo l = Inl x \<and> \<not> converts x))"
    using novo_outcomes [of repo req w] by blast
  have r: "(\<exists>c b. sent (snd (remover repo req w)) = sent w @ [(c, b)] \<and> (c = 200 \<or> c = 400)) \<or>
    (sent (snd (remover repo req w)) = sent w \<and>
     (\<exists>n x. calls (snd (remover repo req w)) = calls w @ [RemoverLivro n] \<and>
        removerLivro repo n = Inl x \<and> \<not> converts x))"
    using remover_outcomes [of repo req w] by blast
  have a: "(\<exists>c b. sent (snd (atualizar repo req w)) = sent w @ [(c, b)] \<and> (c = 200 \<or> c = 400)) \<or>
    (sent (snd (atualizar repo req w)) = sent w \<and>
     (\<exists>l x. calls (snd (atualizar repo req w)) = calls w @ [AtualizarLivro l] \<and>
        atualizarLivro repo l = Inl x \<and> \<not> converts x))"
    using atualizar_outcomes [of repo req w] by blast
  show ?thesis
    by (intro conjI) (rule t n r a nf rf af)+
qed

text \<open>
  C7 at a model class whose methods all resolve \<^verbatim>\<open>false\<close>.
\<close>

theorem status_200_or_400_witness:
  "calls (snd (novo (repo_const (Inr (JBool False))) (request_of livro_exemplo [(''idlivro'', ''7'')])
      fresh)) = calls fresh @ [CadastroLivro entidade_exemplo] \<and>
   calls (snd (remover (repo_const (Inr (JBool False)))
      (request_of livro_exemplo [(''idlivro'', ''7'')]) fresh)) = calls fresh @ [RemoverLivro (Fin 7)] \<and>
   calls (snd (atualizar (repo_const (Inr (JBool False)))
      (request_of livro_exemplo [(''idlivro'', ''7'')]) fresh)) =
      calls fresh @ [AtualizarLivro (setIdLivro NaN entidade_exemplo)] \<and>
   cadastroLivro (repo_const (Inr (JBool False))) entidade_exemplo = Inr (JBool False) \<and>
   removerLivro (repo_const (Inr (JBool False))) (Fin 7) = Inr (JBool False) \<and>
   atualizarLivro (repo_const (Inr (JBool False))) (setIdLivro NaN entidade_exemplo) =
     Inr (JBool False) \<and>
   \<not> ToBoolean (JBool False) \<and>
   (\<exists>b. sent (snd (novo (repo_const (Inr (JBool False)))
      (request_of livro_exemplo [(''idlivro'', ''7'')]) fresh)) = [(400, b)]) \<and>
   (\<exists>b. sent (snd (remover (repo_const (Inr (JBool False)))
      (request_of livro_exemplo [(''idlivro'', ''7'')]) fresh)) = [(400, b)]) \<and>
   (\<exists>b. sent (snd (atualizar (repo_const (Inr (JBool False)))
      (request_of livro_exemplo [(''idlivro'', ''7'')]) fresh)) = [(400, b)])"
proof -
  let ?req = "request_of livro_exemplo [(''idlivro'', ''7'')]"
  let ?F = "repo_const (Inr (JBool False))"
  have pr: "parseInt (ToString_param (params ?req ''idlivro'')) = Fin 7"
    by (simp add: request_of_def parseInt_7)
  have pa: "parseInt (ToString_param (params ?req ''idLivro'')) = NaN"
    by (simp add: request_of_def parseInt_undefined)
  have cn: "calls (snd (novo ?F ?req fresh)) = calls fresh @ [CadastroLivro entidade_exemplo]"
    by (simp add: novo_calls [OF new_Livro_from_exemplo] repo_const_def)
  have cr: "calls (snd (remover ?F ?req fresh)) = calls fresh @ [RemoverLivro (Fin 7)]"
    by (simp add: remover_run pr repo_const_def)
  have ca: "calls (snd (atualizar ?F ?req fresh)) =
      calls fresh @ [AtualizarLivro (setIdLivro NaN entidade_exemplo)]"
    by (simp add: atualizar_calls [OF new_Livro_from_exemplo] pa repo_const_def setIdLivro_def)
  have r: "cadastroLivro ?F entidade_exemplo = Inr (JBool False)"
    "removerLivro ?F (Fin 7) = Inr (JBool False)"
    "atualizarLivro ?F (setIdLivro NaN entidade_exemplo) = Inr (JBool False)"
    by (simp_all add: repo_const_def)
  from status_200_or_400 [of ?F ?req fresh entidade_exemplo "JBool False" "Fin 7"]
    status_200_or_400 [of ?F ?req fresh "setIdLivro NaN entidade_exemplo" "JBool False" "Fin 7"]
  show ?thesis using cn cr ca r by (simp add: fresh_def)
qed

text \<open>
  C8. The entity that \<^verbatim>\<open>novo\<close> passes to \<^verbatim>\<open>Livro.cadastroLivro\<close> has no
  identifier set; the entity that \<^verbatim>\<open>atualizar\<close> passes to \<^verbatim>\<open>Livro.atualizarLivro\<close>
  has the identifier set, to \<^verbatim>\<open>parseInt\<close> of the path parameter \<^verbatim>\<open>idLivro\<close>; and
  both calls are made whenever the body is an object.
\<close>

theorem identifier_absent_on_create_present_on_update:
  "(calls (snd (novo repo req w)) = calls w @ [CadastroLivro l] \<longrightarrow> idLivro l = None) \<and>
   (calls (snd (atualizar repo req w)) = calls w @ [AtualizarLivro l'] \<longrightarrow>
      idLivro l' = Some (parseInt (ToString_param (params req ''idLivro'')))) \<and>
   (\<not> nullish (body req) \<longrightarrow>
      (\<exists>l. calls (snd (novo repo req w)) = calls w @ [CadastroLivro l]) \<and>
      (\<exists>l'. calls (snd (atualizar repo req w)) = calls w @ [AtualizarLivro l']))"
proof -
  from body_cases [of req w] show ?thesis
  proof (elim disjE exE conjE)
    fix m
    assume "nullish (body req)"
      and "new_Livro_from (body req) w = (Inl (JsError ''TypeError'' m), w)"
    then show ?thesis by (simp add: novo_parse_throws atualizar_parse_throws)
  next
    fix l0
    assume "\<not> nullish (body req)" and "new_Livro_from (body req) w = (Inr l0, w)"
      and "idLivro l0 = None"
    then show ?thesis
      by (auto simp add: novo_calls atualizar_calls Let_def split: sum.splits)
  qed
qed

text \<open>
  C8 at the example body and the path parameter \<^verbatim>\<open>3\<close>.
\<close>

theorem identifier_absent_on_create_present_on_update_witness:
  "\<not> nullish (body (request_of livro_exemplo [(''idLivro'', ''3'')])) \<and>
   (\<exists>l. calls (snd (novo (repo_const (Inr (JBool True)))
        (request_of livro_exemplo [(''idLivro'', ''3'')]) fresh)) = [CadastroLivro l] \<and>
        idLivro l = None) \<and>
   (\<exists>l'. calls (snd (atualizar (repo_const (Inr (JBool True)))
        (request_of livro_exemplo [(''idLivro'', ''3'')]) fresh)) = [AtualizarLivro l'] \<and>
        idLivro l' = Some (Fin 3))"
proof -
  let ?req = "request_of livro_exemplo [(''idLivro'', ''3'')]"
  let ?repo = "repo_const (Inr (JBool True))"
  have h: "\<not> nullish (body ?req)" by (simp add: request_of_def livro_exemplo_def)
  have p: "parseInt (ToString_param (params ?req ''idLivro'')) = Fin 3"
    by (simp add: request_of_def parseInt_3)
  have "\<And>l l'. (calls (snd (novo ?repo ?req fresh)) = calls fresh @ [CadastroLivro l] \<longrightarrow>
        idLivro l = None) \<and>
     (calls (snd (atualizar ?repo ?req fresh)) = calls fresh @ [AtualizarLivro l'] \<longrightarrow>
        idLivro l' = Some (Fin 3)) \<and>
     (\<exists>l. calls (snd (novo ?repo ?req fresh)) = calls fresh @ [CadastroLivro l]) \<and>
     (\<exists>l'. calls (snd (atualizar ?repo ?req fresh)) = calls fresh @ [AtualizarLivro l'])"
    using identifier_absent_on_create_present_on_update [of ?repo ?req fresh] h
    unfolding p by blast
  then show ?thesis using h by (simp add: fresh_def) blast
qed



text \<open>
  C10. \<^verbatim>\<open>remover\<close> reads the path parameter \<^verbatim>\<open>idlivro\<close> and \<^verbatim>\<open>atualizar\<close> the
  path parameter \<^verbatim>\<open>idLivro\<close>. On a request that binds \<^verbatim>\<open>idlivro\<close>, \<^verbatim>\<open>remover\<close>
  passes what \<^verbatim>\<open>parseInt\<close> gives for it, and \<^verbatim>\<open>NaN\<close> on a request that does not. On
  a request whose body is an object, \<^verbatim>\<open>atualizar\<close> passes an entity whose identifier is
  what \<^verbatim>\<open>parseInt\<close> gives for \<^verbatim>\<open>idLivro\<close> when the request binds that key, and
  \<^verbatim>\<open>NaN\<close> when it does not, whatever it binds \<^verbatim>\<open>idlivro\<close> to.
\<close>

theorem atualizar_reads_idLivro_key:
  "(params req ''idlivro'' = Some s \<longrightarrow>
      calls (snd (remover repo req w)) = calls w @ [RemoverLivro (parseInt s)]) \<and>
   (params req ''idlivro'' = None \<longrightarrow>
      calls (snd (remover repo req w)) = calls w @ [RemoverLivro NaN]) \<and>
   (\<not> nullish (body req) \<and> params req ''idLivro'' = Some t \<longrightarrow>
      (\<exists>l. calls (snd (atualizar repo req w)) = calls w @ [AtualizarLivro l] \<and>
         idLivro l = Some (parseInt t))) \<and>
   (\<not> nullish (body req) \<and> params req ''idLivro'' = None \<longrightarrow>
      (\<exists>l. calls (snd (atualizar repo req w)) = calls w @ [AtualizarLivro l] \<and>
         idLivro l = Some NaN))"
proof -
  have r: "calls (snd (remover repo req w)) =
     calls w @ [RemoverLivro (parseInt (ToString_param (params req ''idlivro'')))]"
    by (simp add: remover_run Let_def split: sum.splits)
  have a: "\<not> nullish (body req) \<longrightarrow>
     (\<exists>l. calls (snd (atualizar repo req w)) = calls w @ [AtualizarLivro l] \<and>
        idLivro l = Some (parseInt (ToString_param (params req ''idLivro''))))"
  proof
    assume "\<not> nullish (body req)"
    from new_Livro_from_object [OF this, of w] obtain l0 where
      "new_Livro_from (body req) w = (Inr l0, w)" by blast
    then show "\<exists>l. calls (snd (atualizar repo req w)) = calls w @ [AtualizarLivro l] \<and>
        idLivro l = Some (parseInt (ToString_param (params req ''idLivro'')))"
      by (auto simp add: atualizar_calls Let_def split: sum.splits)
  qed
  from r a show ?thesis by (auto simp add: parseInt_undefined)
qed

text \<open>
  C10 at the example body, with the path parameter \<^verbatim>\<open>3\<close> bound to \<^verbatim>\<open>idlivro\<close> only
  and then to \<^verbatim>\<open>idLivro\<close> only.
\<close>

theorem atualizar_reads_idLivro_key_witness:
  "params (request_of livro_exemplo [(''idlivro'', ''3'')]) ''idlivro'' = Some ''3'' \<and>
   params (request_of livro_exemplo [(''idlivro'', ''3'')]) ''idLivro'' = None \<and>
   \<not> nullish (body (request_of livro_exemplo [(''idlivro'', ''3'')])) \<and>
   calls (snd (remover (repo_const (Inr (JBool True)))
      (request_of livro_exemplo [(''idlivro'', ''3'')]) fresh)) = [RemoverLivro (Fin 3)] \<and>
   (\<exists>l. calls (snd (atualizar (repo_const (Inr (JBool True)))
      (request_of livro_exemplo [(''idlivro'', ''3'')]) fresh)) = [AtualizarLivro l] \<and>
      idLivro l = Some NaN) \<and>
   params (request_of livro_exemplo [(''idLivro'', ''3'')]) ''idLivro'' = Some ''3'' \<and>
   params (request_of livro_exemplo [(''idLivro'', ''3'')]) ''idlivro'' = None \<and>
   \<not> nullish (body (request_of livro_exemplo [(''idLivro'', ''3'')])) \<and>
   calls (snd (remover (repo_const (Inr (JBool True)))
      (request_of livro_exemplo [(''idLivro'', ''3'')]) fresh)) = [RemoverLivro NaN] \<and>
   (\<exists>l. calls (snd (atualizar (repo_const (Inr (JBool True)))
      (request_of livro_exemplo [(''idLivro'', ''3'')]) fresh)) = [AtualizarLivro l] \<and>
      idLivro l = Some (Fin 3))"
proof -
  let ?lower = "request_of livro_exemplo [(''idlivro'', ''3'')]"
  let ?upper = "request_of livro_exemplo [(''idLivro'', ''3'')]"
  let ?T = "repo_const (Inr (JBool True))"
  have l1: "params ?lower ''idlivro'' = Some ''3''" and l2: "params ?lower ''idLivro'' = None"
    and u1: "params ?upper ''idLivro'' = Some ''3''" and u2: "params ?upper ''idlivro'' = None"
    by (simp_all add: request_of_def)
  have b: "\<not> nullish (body ?lower)" "\<not> nullish (body ?upper)"
    by (simp_all add: request_of_def livro_exemplo_def)
  from atualizar_reads_idLivro_key [of ?lower "''3''" ?T fresh "''3''"]
    atualizar_reads_idLivro_key [of ?upper "''3''" ?T fresh "''3''"]
  show ?thesis using l1 l2 u1 u2 b by (simp add: fresh_def parseInt_3)
qed

end
